theory Spec2Isabelle
  imports Complex_Main
begin

section \<open>JavaScript values\<close>

text \<open>
  The class \<open>Result<V, E extends Error>\<close> of \<open>result.ts\<close> is generic in the value type
  \<open>V\<close>, and at run time its code inspects the stored value dynamically: strict equality
  with \<open>null\<close> and \<open>undefined\<close>, \<open>Array.isArray\<close>, \<open>.length\<close>, \<open>typeof\<close>,
  \<open>Object.keys\<close> and truthiness (\<open>if (this._data)\<close>). The value type is therefore the
  universe of JavaScript values, restricted to what these observations can tell apart:
  the primitives, functions, dense arrays, and objects given by their own enumerable
  string-keyed properties in the order of writing. An object without own enumerable
  properties (\<open>{}\<close>, but also a \<open>Date\<close> or a \<open>Map\<close>) is \<open>JObj []\<close>.

  A number is a double: not-a-number, the two infinities, negative zero, or a finite
  value, of which only the difference between zero and non-zero is ever observed.
\<close>

datatype jsnum = NaN | PosInfinity | NegInfinity | NegZero | Finite rat

datatype jsval =
    JUndefined
  | JNull
  | JBool bool
  | JNum jsnum
  | JBigInt int
  | JStr string
  | JSym string
  | JFunc nat
  | JArr "jsval list"
  | JObj "(string \<times> jsval) list"

text \<open>\<open>ToBoolean\<close>: the falsy numbers are \<open>+0\<close>, \<open>-0\<close> and \<open>NaN\<close>.\<close>

fun num_truthy :: "jsnum \<Rightarrow> bool" where
  "num_truthy NaN = False"
| "num_truthy NegZero = False"
| "num_truthy (Finite q) = (q \<noteq> 0)"
| "num_truthy PosInfinity = True"
| "num_truthy NegInfinity = True"

text \<open>
  \<open>ToBoolean\<close> on values: \<open>undefined\<close>, \<open>null\<close>, \<open>false\<close>, the falsy numbers, \<open>0n\<close> and
  the empty string are falsy; every symbol, function, array and object is truthy.
\<close>

fun truthy :: "jsval \<Rightarrow> bool" where
  "truthy JUndefined = False"
| "truthy JNull = False"
| "truthy (JBool b) = b"
| "truthy (JNum n) = num_truthy n"
| "truthy (JBigInt i) = (i \<noteq> 0)"
| "truthy (JStr s) = (s \<noteq> [])"
| "truthy (JSym s) = True"
| "truthy (JFunc f) = True"
| "truthy (JArr xs) = True"
| "truthy (JObj ps) = True"

text \<open>The \<open>typeof\<close> operator; \<open>typeof null\<close> is \<open>"object"\<close>.\<close>

fun typeof :: "jsval \<Rightarrow> string" where
  "typeof JUndefined = ''undefined''"
| "typeof JNull = ''object''"
| "typeof (JBool b) = ''boolean''"
| "typeof (JNum n) = ''number''"
| "typeof (JBigInt i) = ''bigint''"
| "typeof (JStr s) = ''string''"
| "typeof (JSym s) = ''symbol''"
| "typeof (JFunc f) = ''function''"
| "typeof (JArr xs) = ''object''"
| "typeof (JObj ps) = ''object''"

text \<open>The decimal name of an array index, as \<open>Object.keys\<close> reports it.\<close>

fun index_key :: "nat \<Rightarrow> string" where
  "index_key n =
     (if n < 10 then [char_of (48 + n)]
      else index_key (n div 10) @ [char_of (48 + n mod 10)])"

datatype js_exception = TypeError

text \<open>
  \<open>Object.keys\<close>: the own enumerable string keys. It throws a \<open>TypeError\<close> on \<open>null\<close>
  and \<open>undefined\<close>; a string has its indices as keys, the other primitives and a
  function have none. A key written twice in an object is one key, at the place where
  it was written first. The keys of an object are given in the order of writing;
  JavaScript moves the keys that are array indices to the front, in ascending order,
  which is left out here: the class reads only how many keys there are.
\<close>

definition first_occurrences :: "'a list \<Rightarrow> 'a list" where
  "first_occurrences ks = rev (remdups (rev ks))"

fun Object_keys :: "jsval \<Rightarrow> js_exception + string list" where
  "Object_keys JUndefined = Inl TypeError"
| "Object_keys JNull = Inl TypeError"
| "Object_keys (JArr xs) = Inr (map index_key [0..<length xs])"
| "Object_keys (JObj ps) = Inr (first_occurrences (map fst ps))"
| "Object_keys (JStr s) = Inr (map index_key [0..<length s])"
| "Object_keys v = Inr []"

section \<open>Result objects and the store\<close>

text \<open>
  A \<open>Result\<close> object has the two private fields \<open>_error: E | undefined\<close> and
  \<open>_data: V | undefined\<close> (an Isabelle name cannot start with an underscore, hence
  \<open>priv_\<close>). \<open>E extends Error\<close>, so an error is an object and always truthy: the field
  is an option, \<open>None\<close> for \<open>undefined\<close>, and \<open>if (this._error)\<close> asks whether it is
  \<open>Some\<close>. The data field holds any value, \<open>JUndefined\<close> when it was never assigned.
\<close>

record 'e Result =
  priv_error :: "'e option"
  priv_data :: jsval

text \<open>
  Two methods return \<open>this\<close> and the others return \<open>new Result\<close> objects, so objects
  have an identity: they live in a store, a list indexed by address, and a reference
  is an address. Everything else a callback can read or write is the component
  \<open>ext\<close>, of an arbitrary type. Callbacks are functions from their argument and
  \<open>ext\<close> to their return value and the new \<open>ext\<close>: they return normally and do not
  reach into the private fields of stored \<open>Result\<close> objects.
\<close>

type_synonym ref = nat

record ('e, 's) world =
  heap :: "'e Result list"
  ext :: 's

text \<open>\<open>new Result<V, E>()\<close>: both fields are \<open>undefined\<close>.\<close>

definition new_Result :: "('e, 's) world \<Rightarrow> ref \<times> ('e, 's) world" where
  "new_Result w =
     (length (heap w),
      w\<lparr>heap := heap w @ [\<lparr>priv_error = None, priv_data = JUndefined\<rparr>]\<rparr>)"

text \<open>The assignments \<open>res._error = error\<close> and \<open>res._data = value\<close>.\<close>

definition set_error :: "ref \<Rightarrow> 'e \<Rightarrow> ('e, 's) world \<Rightarrow> ('e, 's) world" where
  "set_error r e w = w\<lparr>heap := (heap w)[r := (heap w ! r)\<lparr>priv_error := Some e\<rparr>]\<rparr>"

definition set_data :: "ref \<Rightarrow> jsval \<Rightarrow> ('e, 's) world \<Rightarrow> ('e, 's) world" where
  "set_data r v w = w\<lparr>heap := (heap w)[r := (heap w ! r)\<lparr>priv_data := v\<rparr>]\<rparr>"

section \<open>The class Result\<close>

subsection \<open>Construction\<close>

text \<open>\<open>static failure(error)\<close>.\<close>

definition failure :: "'e \<Rightarrow> ('e, 's) world \<Rightarrow> ref \<times> ('e, 's) world" where
  "failure error_arg w =
     (let (res, w1) = new_Result w in (res, set_error res error_arg w1))"

text \<open>\<open>static of(value)\<close>; \<open>of\<close> is reserved in Isabelle.\<close>

definition of_Result :: "jsval \<Rightarrow> ('e, 's) world \<Rightarrow> ref \<times> ('e, 's) world" where
  "of_Result v w = (let (res, w1) = new_Result w in (res, set_data res v w1))"

text \<open>
  \<open>static fromNullable(data)\<close> returns the closure \<open>(error) => ...\<close>; the three checks
  run when the closure is called. \<open>&&\<close> evaluates its right operand only when the left
  one holds: \<open>Array.isArray(data) && data.length === 0\<close> reads the length of an array
  only (the \<open>case\<close> below), and \<open>Object.keys\<close> is called only when \<open>typeof data\<close> is
  \<open>"object"\<close>. An exception of \<open>Object.keys\<close> would leave the closure: it is the
  \<open>Inl\<close> result. The parameters \<open>data\<close> and \<open>error\<close> carry the suffix \<open>_arg\<close>, as the
  accessors below have these names.
\<close>

definition fromNullable ::
  "jsval \<Rightarrow> 'e \<Rightarrow> ('e, 's) world \<Rightarrow> js_exception + ref \<times> ('e, 's) world" where
  "fromNullable data_arg error_arg w =
     (if data_arg = JNull \<or> data_arg = JUndefined then Inr (failure error_arg w)
      else if (case data_arg of JArr xs \<Rightarrow> length xs = 0 | _ \<Rightarrow> False)
        then Inr (failure error_arg w)
      else if typeof data_arg = ''object'' then
        (case Object_keys data_arg of
           Inl exn \<Rightarrow> Inl exn
         | Inr ks \<Rightarrow>
             if length ks = 0 then Inr (failure error_arg w) else Inr (of_Result data_arg w))
      else Inr (of_Result data_arg w))"

subsection \<open>Accessors\<close>

text \<open>\<open>get error()\<close> returns \<open>this._error\<close>, and \<open>get data()\<close> returns \<open>this._data as V\<close>.\<close>

definition error :: "ref \<Rightarrow> ('e, 's) world \<Rightarrow> 'e option" where
  "error this w = priv_error (heap w ! this)"

definition data :: "ref \<Rightarrow> ('e, 's) world \<Rightarrow> jsval" where
  "data this w = priv_data (heap w ! this)"

subsection \<open>Transformation\<close>

text \<open>
  \<open>apply(func)\<close>: \<open>if (!this._error) return Result.of(func(this._data as V));
  return Result.failure(this._error);\<close>. The argument \<open>func(...)\<close> is evaluated
  before \<open>Result.of\<close> runs. (\<open>apply\<close>, \<open>of\<close> and \<open>fold\<close> are taken in Isabelle,
  hence the suffix.)
\<close>

definition apply_Result ::
  "(jsval \<Rightarrow> 's \<Rightarrow> jsval \<times> 's) \<Rightarrow> ref \<Rightarrow> ('e, 's) world \<Rightarrow> ref \<times> ('e, 's) world" where
  "apply_Result func this w =
     (case priv_error (heap w ! this) of
        None \<Rightarrow>
          (let (y, s) = func (priv_data (heap w ! this)) (ext w)
           in of_Result y (w\<lparr>ext := s\<rparr>))
      | Some e \<Rightarrow> failure e w)"

text \<open>
  \<open>applyOnFailure(func)\<close>: \<open>if (this._error) return Result.failure(func(this._error));
  return Result.of(this._data as V);\<close>
\<close>

definition applyOnFailure ::
  "('e \<Rightarrow> 's \<Rightarrow> 'e \<times> 's) \<Rightarrow> ref \<Rightarrow> ('e, 's) world \<Rightarrow> ref \<times> ('e, 's) world" where
  "applyOnFailure func this w =
     (case priv_error (heap w ! this) of
        Some e \<Rightarrow>
          (let (e', s) = func e (ext w)
           in failure e' (w\<lparr>ext := s\<rparr>))
      | None \<Rightarrow> of_Result (priv_data (heap w ! this)) w)"

subsection \<open>Folding\<close>

text \<open>
  \<open>fold(onData, onError)\<close>: \<open>if (!this._error) return onData(this._data as V);
  return onError(this._error);\<close>. The result type \<open>L | R\<close> is one type here.
\<close>

definition fold_Result ::
  "(jsval \<Rightarrow> 's \<Rightarrow> 'a \<times> 's) \<Rightarrow> ('e \<Rightarrow> 's \<Rightarrow> 'a \<times> 's) \<Rightarrow> ref \<Rightarrow> ('e, 's) world
     \<Rightarrow> 'a \<times> ('e, 's) world" where
  "fold_Result onData onError this w =
     (case priv_error (heap w ! this) of
        None \<Rightarrow>
          (let (y, s) = onData (priv_data (heap w ! this)) (ext w)
           in (y, w\<lparr>ext := s\<rparr>))
      | Some e \<Rightarrow>
          (let (y, s) = onError e (ext w)
           in (y, w\<lparr>ext := s\<rparr>)))"

subsection \<open>Conditional failure and recovery\<close>

text \<open>
  \<open>failOnCondition(condition, error)\<close>: an existing error wins; otherwise the
  condition is evaluated on the data and decides between \<open>Result.failure(error)\<close> and
  \<open>Result.of(this._data as V)\<close>.
\<close>

definition failOnCondition ::
  "(jsval \<Rightarrow> 's \<Rightarrow> bool \<times> 's) \<Rightarrow> 'e \<Rightarrow> ref \<Rightarrow> ('e, 's) world \<Rightarrow> ref \<times> ('e, 's) world" where
  "failOnCondition condition error_arg this w =
     (case priv_error (heap w ! this) of
        Some e \<Rightarrow> failure e w
      | None \<Rightarrow>
          (let (c, s) = condition (priv_data (heap w ! this)) (ext w)
           in if c then failure error_arg (w\<lparr>ext := s\<rparr>)
              else of_Result (priv_data (heap w ! this)) (w\<lparr>ext := s\<rparr>)))"

text \<open>
  \<open>onFailureReturn(newValue, filter?)\<close>: the optional parameter is an option;
  \<open>!filter || filter(this._error)\<close> calls the filter only when one was given.
\<close>

definition onFailureReturn ::
  "jsval \<Rightarrow> ('e \<Rightarrow> 's \<Rightarrow> bool \<times> 's) option \<Rightarrow> ref \<Rightarrow> ('e, 's) world
     \<Rightarrow> ref \<times> ('e, 's) world" where
  "onFailureReturn newValue filter_arg this w =
     (case priv_error (heap w ! this) of
        None \<Rightarrow> of_Result (priv_data (heap w ! this)) w
      | Some e \<Rightarrow>
          (case filter_arg of
             None \<Rightarrow> of_Result newValue w
           | Some flt \<Rightarrow>
               (let (c, s) = flt e (ext w)
                in if c then of_Result newValue (w\<lparr>ext := s\<rparr>)
                   else failure e (w\<lparr>ext := s\<rparr>))))"

subsection \<open>Peeking\<close>

text \<open>
  \<open>onFailurePeek(func)\<close>: \<open>if (this._error) { func(this._error); } return this;\<close>.
  What the callback returns is dropped.
\<close>

definition onFailurePeek ::
  "('e \<Rightarrow> 's \<Rightarrow> 'b \<times> 's) \<Rightarrow> ref \<Rightarrow> ('e, 's) world \<Rightarrow> ref \<times> ('e, 's) world" where
  "onFailurePeek func this w =
     (case priv_error (heap w ! this) of
        Some e \<Rightarrow> (this, w\<lparr>ext := snd (func e (ext w))\<rparr>)
      | None \<Rightarrow> (this, w))"

text \<open>
  \<open>peek(func)\<close>: \<open>if (this._data) { func(this._data); } return this;\<close>. The test is
  the truthiness of the data field, not the absence of an error.
\<close>

definition peek ::
  "(jsval \<Rightarrow> 's \<Rightarrow> 'b \<times> 's) \<Rightarrow> ref \<Rightarrow> ('e, 's) world \<Rightarrow> ref \<times> ('e, 's) world" where
  "peek func this w =
     (if truthy (priv_data (heap w ! this))
      then (this, w\<lparr>ext := snd (func (priv_data (heap w ! this)) (ext w))\<rparr>)
      else (this, w))"

text \<open>
  The members the class declares, in source order: the two private fields, the three
  static constructors, the two accessors and the seven methods.
\<close>

definition Result_members :: "string list" where
  "Result_members =
     [''_error'', ''_data'', ''failure'', ''of'', ''fromNullable'', ''error'', ''data'',
      ''apply'', ''applyOnFailure'', ''fold'', ''failOnCondition'', ''onFailureReturn'',
      ''onFailurePeek'', ''peek'']"

section \<open>Notions of the specification\<close>

text \<open>
  The specification speaks of \<open>Success(v)\<close> and \<open>Failure(e)\<close>. In the class these are
  the objects that \<open>Result.of(v)\<close> and \<open>Result.failure(e)\<close> build (lemmas
  \<open>of_Result_builds\<close> and \<open>failure_builds\<close> below); since the fields are private and
  only these two functions assign them, every object of the class is one of the two.
  Two objects have the same tag and payload when they are equal as records.
\<close>

definition Success :: "jsval \<Rightarrow> 'e Result" where
  "Success v = \<lparr>priv_error = None, priv_data = v\<rparr>"

definition Failure :: "'e \<Rightarrow> 'e Result" where
  "Failure e = \<lparr>priv_error = Some e, priv_data = JUndefined\<rparr>"

text \<open>
  A call-counting stub: the callback \<open>f\<close> run in a world whose \<open>ext\<close> carries a
  counter beside the callback's own state; each call adds one.
\<close>

definition counting :: "('a \<Rightarrow> 's \<Rightarrow> 'b \<times> 's) \<Rightarrow> 'a \<Rightarrow> 's \<times> nat \<Rightarrow> 'b \<times> ('s \<times> nat)" where
  "counting f x sn = (let (y, s) = f x (fst sn) in (y, (s, Suc (snd sn))))"

text \<open>The arrow function \<open>x => g(f(x))\<close>: \<open>f\<close> runs first, \<open>g\<close> on what it returned.\<close>

definition then_call ::
  "('a \<Rightarrow> 's \<Rightarrow> 'b \<times> 's) \<Rightarrow> ('b \<Rightarrow> 's \<Rightarrow> 'c \<times> 's) \<Rightarrow> 'a \<Rightarrow> 's \<Rightarrow> 'c \<times> 's" where
  "then_call f g x s = (let (y, s') = f x s in g y s')"

text \<open>
  The emptiness condition in the words of the specification: the value is null or
  undefined, or it is a sequence with zero elements, or it is an object (not a
  primitive; \<open>typeof\<close> says \<open>"object"\<close>) with zero own enumerable keys.
\<close>

definition fails_fromNullable :: "jsval \<Rightarrow> bool" where
  "fails_fromNullable d =
     ((d = JNull \<or> d = JUndefined)
      \<or> (case d of JArr xs \<Rightarrow> length xs = 0 | _ \<Rightarrow> False)
      \<or> (typeof d = ''object'' \<and>
           (case Object_keys d of Inr ks \<Rightarrow> length ks = 0 | Inl x \<Rightarrow> False)))"

text \<open>An object is allocated when its address lies in the store.\<close>

definition allocated :: "ref \<Rightarrow> ('e, 's) world \<Rightarrow> bool" where
  "allocated r w = (r < length (heap w))"

text \<open>
  A call on the receiver \<open>this\<close> in the world \<open>w\<close> returns a freshly constructed
  object when the returned address was not allocated before the call and is
  allocated after it, it is not the receiver, and every object of \<open>w\<close>, the receiver
  among them, is as it was. It returns the receiver when the returned address is
  \<open>this\<close> and the store is as it was.
\<close>

definition returns_fresh :: "ref \<times> ('e, 's) world \<Rightarrow> ref \<Rightarrow> ('e, 's) world \<Rightarrow> bool" where
  "returns_fresh rw this w =
     (\<not> allocated (fst rw) w \<and> allocated (fst rw) (snd rw) \<and> fst rw \<noteq> this \<and>
      heap (snd rw) ! this = heap w ! this \<and>
      take (length (heap w)) (heap (snd rw)) = heap w)"

definition returns_receiver :: "ref \<times> ('e, 's) world \<Rightarrow> ref \<Rightarrow> ('e, 's) world \<Rightarrow> bool" where
  "returns_receiver rw this w = (fst rw = this \<and> heap (snd rw) = heap w)"

section \<open>Example worlds and callbacks\<close>

text \<open>
  The objects of the repository's tests, \<open>Result.of(42)\<close> at address 0 and
  \<open>Result.failure(new Error("test error"))\<close> at address 1 (an error is given by its
  message), in a world whose \<open>ext\<close> is a number, and in one whose \<open>ext\<close> carries the
  counter of a call-counting stub as well.
\<close>

definition demo_world :: "(string, nat) world" where
  "demo_world = \<lparr>heap = [Success (JNum (Finite 42)), Failure ''test error''], ext = 0\<rparr>"

definition demo_counting_world :: "(string, nat \<times> nat) world" where
  "demo_counting_world =
     \<lparr>heap = [Success (JNum (Finite 42)), Failure ''test error''], ext = (0, 0)\<rparr>"

definition empty_world :: "(string, nat) world" where
  "empty_world = \<lparr>heap = [], ext = 0\<rparr>"

text \<open>
  The world after \<open>Result.of(null)\<close> and then \<open>Result.failure(new Error("boom"))\<close>:
  the \<open>of(null)\<close> object is at address 0 and is not the object built last.
\<close>

definition nullish_world :: "(string, nat) world" where
  "nullish_world = snd (failure ''boom'' (snd (of_Result JNull empty_world)))"

text \<open>
  Callbacks over these worlds, each adding one to \<open>ext\<close> when it runs:
  \<open>x => [x]\<close>, \<open>x => typeof x === "number"\<close>, \<open>e => e.message === m\<close>,
  \<open>e => new Error(e.message + "!")\<close>, \<open>e => e.message\<close>, and a callback that returns
  nothing.
\<close>

definition wrap :: "jsval \<Rightarrow> nat \<Rightarrow> jsval \<times> nat" where
  "wrap x s = (JArr [x], Suc s)"

definition is_number :: "jsval \<Rightarrow> nat \<Rightarrow> bool \<times> nat" where
  "is_number x s = (typeof x = ''number'', Suc s)"

definition has_message :: "string \<Rightarrow> string \<Rightarrow> nat \<Rightarrow> bool \<times> nat" where
  "has_message m e s = (e = m, Suc s)"

definition exclaim :: "string \<Rightarrow> nat \<Rightarrow> string \<times> nat" where
  "exclaim e s = (e @ ''!'', Suc s)"

definition message_of :: "string \<Rightarrow> nat \<Rightarrow> jsval \<times> nat" where
  "message_of e s = (JStr e, Suc s)"

definition tally :: "'a \<Rightarrow> nat \<Rightarrow> unit \<times> nat" where
  "tally x s = ((), Suc s)"

section \<open>What each operation computes\<close>

lemma of_Result_builds:
  "of_Result v w = (length (heap w), w\<lparr>heap := heap w @ [Success v]\<rparr>)"
  by (simp add: of_Result_def new_Result_def set_data_def Success_def)

lemma failure_builds:
  "failure e w = (length (heap w), w\<lparr>heap := heap w @ [Failure e]\<rparr>)"
  by (simp add: failure_def new_Result_def set_error_def Failure_def)

lemma Success_not_Failure: "Success v \<noteq> Failure e"
  by (simp add: Success_def Failure_def)

lemma counting_calls: "snd (snd (counting f x sn)) = Suc (snd sn)"
  by (simp add: counting_def split_def Let_def)

lemma apply_Success:
  "heap w ! this = Success v \<Longrightarrow>
   apply_Result f this w =
     (length (heap w),
      w\<lparr>heap := heap w @ [Success (fst (f v (ext w)))], ext := snd (f v (ext w))\<rparr>)"
  by (simp add: apply_Result_def of_Result_builds Success_def split_def Let_def)

lemma apply_Failure:
  "heap w ! this = Failure e \<Longrightarrow>
   apply_Result f this w = (length (heap w), w\<lparr>heap := heap w @ [Failure e]\<rparr>)"
  by (simp add: apply_Result_def failure_builds Failure_def)

lemma applyOnFailure_Success:
  "heap w ! this = Success v \<Longrightarrow>
   applyOnFailure g this w = (length (heap w), w\<lparr>heap := heap w @ [Success v]\<rparr>)"
  by (simp add: applyOnFailure_def of_Result_builds Success_def)

lemma applyOnFailure_Failure:
  "heap w ! this = Failure e \<Longrightarrow>
   applyOnFailure g this w =
     (length (heap w),
      w\<lparr>heap := heap w @ [Failure (fst (g e (ext w)))], ext := snd (g e (ext w))\<rparr>)"
  by (simp add: applyOnFailure_def failure_builds Failure_def split_def Let_def)

lemma fold_Success:
  "heap w ! this = Success v \<Longrightarrow>
   fold_Result onData onError this w =
     (fst (onData v (ext w)), w\<lparr>ext := snd (onData v (ext w))\<rparr>)"
  by (simp add: fold_Result_def Success_def split_def Let_def)

lemma fold_Failure:
  "heap w ! this = Failure e \<Longrightarrow>
   fold_Result onData onError this w =
     (fst (onError e (ext w)), w\<lparr>ext := snd (onError e (ext w))\<rparr>)"
  by (simp add: fold_Result_def Failure_def split_def Let_def)

lemma failOnCondition_Success:
  "heap w ! this = Success v \<Longrightarrow>
   failOnCondition c err this w =
     (length (heap w),
      w\<lparr>heap := heap w @ [if fst (c v (ext w)) then Failure err else Success v],
        ext := snd (c v (ext w))\<rparr>)"
  by (simp add: failOnCondition_def of_Result_builds failure_builds Success_def
      split_def Let_def)

lemma failOnCondition_Failure:
  "heap w ! this = Failure e \<Longrightarrow>
   failOnCondition c err this w = (length (heap w), w\<lparr>heap := heap w @ [Failure e]\<rparr>)"
  by (simp add: failOnCondition_def failure_builds Failure_def)

lemma onFailureReturn_Success:
  "heap w ! this = Success v \<Longrightarrow>
   onFailureReturn nv flt this w = (length (heap w), w\<lparr>heap := heap w @ [Success v]\<rparr>)"
  by (simp add: onFailureReturn_def of_Result_builds Success_def)

lemma onFailureReturn_Failure_no_filter:
  "heap w ! this = Failure e \<Longrightarrow>
   onFailureReturn nv None this w = (length (heap w), w\<lparr>heap := heap w @ [Success nv]\<rparr>)"
  by (simp add: onFailureReturn_def of_Result_builds Failure_def)

lemma onFailureReturn_Failure_filter:
  "heap w ! this = Failure e \<Longrightarrow>
   onFailureReturn nv (Some p) this w =
     (length (heap w),
      w\<lparr>heap := heap w @ [if fst (p e (ext w)) then Success nv else Failure e],
        ext := snd (p e (ext w))\<rparr>)"
  by (simp add: onFailureReturn_def of_Result_builds failure_builds Failure_def
      split_def Let_def)

lemma onFailurePeek_Success:
  "heap w ! this = Success v \<Longrightarrow> onFailurePeek q this w = (this, w)"
  by (simp add: onFailurePeek_def Success_def)

lemma onFailurePeek_Failure:
  "heap w ! this = Failure e \<Longrightarrow>
   onFailurePeek q this w = (this, w\<lparr>ext := snd (q e (ext w))\<rparr>)"
  by (simp add: onFailurePeek_def Failure_def)

lemma peek_truthy:
  "priv_data (heap w ! this) = v \<Longrightarrow> truthy v \<Longrightarrow>
   peek p this w = (this, w\<lparr>ext := snd (p v (ext w))\<rparr>)"
  by (simp add: peek_def)

lemma peek_falsy:
  "priv_data (heap w ! this) = v \<Longrightarrow> \<not> truthy v \<Longrightarrow> peek p this w = (this, w)"
  by (simp add: peek_def)

lemma peek_Failure: "heap w ! this = Failure e \<Longrightarrow> peek p this w = (this, w)"
  by (simp add: peek_def Failure_def)

section \<open>Construction\<close>

text \<open>
  C7. The accessors read the fields of their receiver. For every value \<open>v\<close>, on any
  \<open>Success(v)\<close> of the store the data accessor returns \<open>v\<close> and the error accessor
  returns \<open>undefined\<close>; for every error \<open>e\<close>, on any \<open>Failure(e)\<close> of the store the
  error accessor returns \<open>e\<close> and the data accessor returns \<open>undefined\<close>, the value of a
  field that was never assigned. \<open>Result.of(v)\<close> and \<open>Result.failure(e)\<close> build such
  objects. Both accessors are plain field reads and have no branch that throws.
\<close>

theorem accessors_read_receiver:
  "(heap w ! rs = Success v \<longrightarrow> data rs w = v \<and> error rs w = None) \<and>
   (heap w ! rf = Failure e \<longrightarrow> error rf w = Some e \<and> data rf w = JUndefined) \<and>
   (let (r, w1) = of_Result v w0
    in heap w1 ! r = Success v \<and> data r w1 = v \<and> error r w1 = None) \<and>
   (let (r, w1) = failure e w0
    in heap w1 ! r = Failure e \<and> error r w1 = Some e \<and> data r w1 = JUndefined)"
  by (simp add: of_Result_builds failure_builds error_def data_def Success_def Failure_def)

theorem accessors_read_receiver_witness:
  "heap demo_world ! 0 = Success (JNum (Finite 42)) \<and>
   heap demo_world ! 1 = Failure ''test error'' \<and>
   data 0 demo_world = JNum (Finite 42) \<and>
   error 0 demo_world = None \<and>
   error 1 demo_world = Some ''test error'' \<and>
   data 1 demo_world = JUndefined \<and>
   data 0 (snd (of_Result (JNum (Finite 42)) empty_world)) = JNum (Finite 42) \<and>
   error 0 (snd (of_Result (JNum (Finite 42)) empty_world)) = None \<and>
   error 0 (snd (failure ''test error'' empty_world)) = Some ''test error'' \<and>
   data 0 (snd (failure ''test error'' empty_world)) = JUndefined"
  using accessors_read_receiver [of demo_world 0 "JNum (Finite 42)" 1 "''test error''"
      empty_world]
  by (simp add: of_Result_builds failure_builds empty_world_def demo_world_def)

text \<open>
  C4, as the claim states it: the class would provide the predicates \<open>isSuccess()\<close>
  and \<open>isFailure()\<close>. It declares neither.
\<close>

theorem Result_has_no_tag_predicates:
  "\<not> (''isSuccess'' \<in> set Result_members \<and> ''isFailure'' \<in> set Result_members)"
  by (simp add: Result_members_def)

text \<open>
  C4, amended. The tag is read through the error accessor: for every value \<open>v\<close> the
  object built by \<open>Result.of(v)\<close> is \<open>Success(v)\<close>, its error is \<open>undefined\<close> and its
  data is \<open>v\<close>; for every error \<open>e\<close> the object built by \<open>Result.failure(e)\<close> is
  \<open>Failure(e)\<close> and its error is \<open>e\<close>.
\<close>

theorem construction_tag_and_payload:
  "(let (r, w1) = of_Result v w
    in heap w1 ! r = Success v \<and> error r w1 = None \<and> data r w1 = v) \<and>
   (let (r, w1) = failure e w
    in heap w1 ! r = Failure e \<and> error r w1 = Some e)"
  by (simp add: of_Result_builds failure_builds error_def data_def Success_def Failure_def)

theorem construction_tag_and_payload_witness:
  "heap (snd (of_Result JNull demo_world)) ! 2 = Success JNull \<and>
   error 2 (snd (of_Result JNull demo_world)) = None \<and>
   data 2 (snd (of_Result JNull demo_world)) = JNull \<and>
   heap (snd (failure ''error'' demo_world)) ! 2 = Failure ''error'' \<and>
   error 2 (snd (failure ''error'' demo_world)) = Some ''error''"
  using construction_tag_and_payload [of JNull demo_world "''error''"]
  by (simp add: of_Result_builds failure_builds demo_world_def numeral_2_eq_2)

text \<open>
  C2. \<open>fromNullable(data)(error)\<close> never throws; it builds \<open>Failure(error)\<close> exactly
  when \<open>data\<close> is null or undefined, or an array with zero elements, or an object
  with zero own enumerable keys, and \<open>Success(data)\<close> for every other \<open>data\<close>. The
  null check stands first: \<open>Object.keys\<close> would throw on \<open>null\<close>, whose \<open>typeof\<close> is
  \<open>"object"\<close>. Among the values modelled the condition holds of \<open>null\<close>, \<open>undefined\<close>,
  the empty array and the object without keys, and of nothing else; a function, whose
  \<open>typeof\<close> is \<open>"function"\<close>, gives \<open>Success\<close>.
\<close>

theorem fromNullable_spec:
  "fromNullable d e w =
     Inr (length (heap w),
          w\<lparr>heap := heap w @ [if fails_fromNullable d then Failure e else Success d]\<rparr>) \<and>
   fails_fromNullable d = (d = JNull \<or> d = JUndefined \<or> d = JArr [] \<or> d = JObj [])"
  by (cases d)
     (simp_all add: fromNullable_def fails_fromNullable_def failure_builds of_Result_builds
        first_occurrences_def)

theorem fromNullable_spec_witness:
  "fromNullable JNull ''error'' empty_world =
     Inr (0, empty_world\<lparr>heap := [Failure ''error'']\<rparr>) \<and>
   fromNullable JUndefined ''error'' empty_world =
     Inr (0, empty_world\<lparr>heap := [Failure ''error'']\<rparr>) \<and>
   fromNullable (JArr []) ''error'' empty_world =
     Inr (0, empty_world\<lparr>heap := [Failure ''error'']\<rparr>) \<and>
   fromNullable (JObj []) ''error'' empty_world =
     Inr (0, empty_world\<lparr>heap := [Failure ''error'']\<rparr>) \<and>
   fromNullable (JStr ''test'') ''error'' empty_world =
     Inr (0, empty_world\<lparr>heap := [Success (JStr ''test'')]\<rparr>) \<and>
   fromNullable (JArr [JNull]) ''error'' empty_world =
     Inr (0, empty_world\<lparr>heap := [Success (JArr [JNull])]\<rparr>) \<and>
   fromNullable (JFunc 0) ''error'' empty_world =
     Inr (0, empty_world\<lparr>heap := [Success (JFunc 0)]\<rparr>)"
  using fromNullable_spec [of JNull "''error''" empty_world]
    fromNullable_spec [of JUndefined "''error''" empty_world]
    fromNullable_spec [of "JArr []" "''error''" empty_world]
    fromNullable_spec [of "JObj []" "''error''" empty_world]
    fromNullable_spec [of "JStr ''test''" "''error''" empty_world]
    fromNullable_spec [of "JArr [JNull]" "''error''" empty_world]
    fromNullable_spec [of "JFunc 0" "''error''" empty_world]
  by (simp add: empty_world_def)

section \<open>Transformation\<close>

text \<open>
  C3. For every value \<open>v\<close> and callback \<open>f\<close>, \<open>apply\<close> on a \<open>Success(v)\<close> runs \<open>f\<close> on
  \<open>v\<close> and returns a new \<open>Success\<close> of what \<open>f\<close> returned, and the world outside is
  as one call of \<open>f\<close> leaves it: a call-counting stub counts exactly one call. For
  every error \<open>e\<close>, \<open>apply\<close> on a \<open>Failure(e)\<close> returns a new \<open>Failure(e)\<close> and leaves
  the world outside as it was for every \<open>f\<close>: the stub counts no call.
\<close>

theorem apply_Result_spec:
  "(heap w ! rs = Success v \<longrightarrow>
      apply_Result f rs w =
        (length (heap w),
         w\<lparr>heap := heap w @ [Success (fst (f v (ext w)))], ext := snd (f v (ext w))\<rparr>)) \<and>
   (heap w ! rf = Failure e \<longrightarrow>
      apply_Result f rf w = (length (heap w), w\<lparr>heap := heap w @ [Failure e]\<rparr>)) \<and>
   (heap wc ! rs = Success v \<longrightarrow>
      snd (ext (snd (apply_Result (counting f) rs wc))) = Suc (snd (ext wc))) \<and>
   (heap wc ! rf = Failure e \<longrightarrow>
      snd (ext (snd (apply_Result (counting f) rf wc))) = snd (ext wc))"
  by (simp add: apply_Success apply_Failure counting_calls)

theorem apply_Result_spec_witness:
  "heap demo_world ! 0 = Success (JNum (Finite 42)) \<and>
   heap demo_world ! 1 = Failure ''test error'' \<and>
   heap demo_counting_world ! 0 = Success (JNum (Finite 42)) \<and>
   heap demo_counting_world ! 1 = Failure ''test error'' \<and>
   apply_Result wrap 0 demo_world =
     (2, demo_world\<lparr>heap := heap demo_world @ [Success (JArr [JNum (Finite 42)])],
                    ext := 1\<rparr>) \<and>
   apply_Result wrap 1 demo_world =
     (2, demo_world\<lparr>heap := heap demo_world @ [Failure ''test error'']\<rparr>) \<and>
   snd (ext (snd (apply_Result (counting wrap) 0 demo_counting_world))) = 1 \<and>
   snd (ext (snd (apply_Result (counting wrap) 1 demo_counting_world))) = 0"
  using apply_Result_spec [of demo_world 0 "JNum (Finite 42)" wrap 1 "''test error''"
      demo_counting_world]
  by (simp add: demo_world_def demo_counting_world_def wrap_def)

text \<open>
  C9. For every receiver and callbacks \<open>f\<close> and \<open>g\<close>, \<open>r.apply(f).apply(g)\<close> and
  \<open>r.apply(x => g(f(x)))\<close> return objects with the same tag and payload, and leave
  the world outside the same.
\<close>

theorem apply_Result_compose:
  "(let (r1, w1) = apply_Result f this w;
        (r2, w2) = apply_Result g r1 w1;
        (r3, w3) = apply_Result (then_call f g) this w
    in heap w2 ! r2 = heap w3 ! r3 \<and> ext w2 = ext w3)"
  by (simp add: apply_Result_def of_Result_builds failure_builds then_call_def split_def
      Let_def nth_append Success_def Failure_def split: option.splits)

theorem apply_Result_compose_witness:
  "heap (snd (apply_Result wrap 2 (snd (apply_Result wrap 0 demo_world)))) ! 3 =
     Success (JArr [JArr [JNum (Finite 42)]]) \<and>
   heap (snd (apply_Result (then_call wrap wrap) 0 demo_world)) ! 2 =
     Success (JArr [JArr [JNum (Finite 42)]]) \<and>
   ext (snd (apply_Result wrap 2 (snd (apply_Result wrap 0 demo_world)))) = 2 \<and>
   ext (snd (apply_Result (then_call wrap wrap) 0 demo_world)) = 2"
  using apply_Result_compose [of wrap 0 demo_world wrap]
  by (simp add: apply_Result_def of_Result_builds then_call_def wrap_def demo_world_def
      Success_def Failure_def numeral_2_eq_2 numeral_3_eq_3)

section \<open>Conditional failure and recovery\<close>

text \<open>
  C6. \<open>failOnCondition\<close> on a \<open>Failure(e)\<close> returns a new \<open>Failure(e)\<close> and does not
  evaluate the predicate (a call-counting stub counts no call); on a \<open>Success(v)\<close> it
  evaluates the predicate on \<open>v\<close> and returns \<open>Failure(error)\<close> when that is true,
  \<open>Success(v)\<close> when it is false.
\<close>

theorem failOnCondition_spec:
  "(heap w ! rf = Failure e \<longrightarrow>
      failOnCondition c err rf w = (length (heap w), w\<lparr>heap := heap w @ [Failure e]\<rparr>)) \<and>
   (heap wc ! rf = Failure e \<longrightarrow>
      snd (ext (snd (failOnCondition (counting c) err rf wc))) = snd (ext wc)) \<and>
   (heap w ! rs = Success v \<longrightarrow>
      failOnCondition c err rs w =
        (length (heap w),
         w\<lparr>heap := heap w @ [if fst (c v (ext w)) then Failure err else Success v],
           ext := snd (c v (ext w))\<rparr>))"
  by (simp add: failOnCondition_Success failOnCondition_Failure)

theorem failOnCondition_spec_witness:
  "heap demo_world ! 1 = Failure ''test error'' \<and>
   heap demo_counting_world ! 1 = Failure ''test error'' \<and>
   heap demo_world ! 0 = Success (JNum (Finite 42)) \<and>
   failOnCondition is_number ''too large'' 1 demo_world =
     (2, demo_world\<lparr>heap := heap demo_world @ [Failure ''test error'']\<rparr>) \<and>
   snd (ext (snd (failOnCondition (counting is_number) ''too large'' 1
                    demo_counting_world))) = 0 \<and>
   failOnCondition is_number ''too large'' 0 demo_world =
     (2, demo_world\<lparr>heap := heap demo_world @ [Failure ''too large''], ext := 1\<rparr>)"
  using failOnCondition_spec [of demo_world 1 "''test error''" is_number "''too large''"
      demo_counting_world 0 "JNum (Finite 42)"]
  by (simp add: demo_world_def demo_counting_world_def is_number_def)

text \<open>
  C5. \<open>onFailureReturn\<close> on a \<open>Success(v)\<close> returns a new \<open>Success(v)\<close>, with or
  without a filter, and does not call the filter; on a \<open>Failure(e)\<close> without a filter
  it returns \<open>Success(newValue)\<close>; on a \<open>Failure(e)\<close> with a filter it returns
  \<open>Success(newValue)\<close> exactly when the filter holds of \<open>e\<close>, and a new \<open>Failure(e)\<close>
  otherwise.
\<close>

theorem onFailureReturn_spec:
  "(heap w ! rs = Success v \<longrightarrow>
      onFailureReturn nv flt rs w = (length (heap w), w\<lparr>heap := heap w @ [Success v]\<rparr>)) \<and>
   (heap w ! rf = Failure e \<longrightarrow>
      onFailureReturn nv None rf w = (length (heap w), w\<lparr>heap := heap w @ [Success nv]\<rparr>)) \<and>
   (heap w ! rf = Failure e \<longrightarrow>
      onFailureReturn nv (Some p) rf w =
        (length (heap w),
         w\<lparr>heap := heap w @ [if fst (p e (ext w)) then Success nv else Failure e],
           ext := snd (p e (ext w))\<rparr>))"
  by (simp add: onFailureReturn_Success onFailureReturn_Failure_no_filter
      onFailureReturn_Failure_filter)

theorem onFailureReturn_spec_witness:
  "heap demo_world ! 0 = Success (JNum (Finite 42)) \<and>
   heap demo_world ! 1 = Failure ''test error'' \<and>
   onFailureReturn (JNum (Finite 7)) (Some (has_message ''test error'')) 0 demo_world =
     (2, demo_world\<lparr>heap := heap demo_world @ [Success (JNum (Finite 42))]\<rparr>) \<and>
   onFailureReturn (JNum (Finite 7)) None 1 demo_world =
     (2, demo_world\<lparr>heap := heap demo_world @ [Success (JNum (Finite 7))]\<rparr>) \<and>
   onFailureReturn (JNum (Finite 7)) (Some (has_message ''different error'')) 1 demo_world =
     (2, demo_world\<lparr>heap := heap demo_world @ [Failure ''test error''], ext := 1\<rparr>)"
  using onFailureReturn_spec [of demo_world 0 "JNum (Finite 42)" "JNum (Finite 7)"
      "Some (has_message ''test error'')" 1 "''test error''" "has_message ''different error''"]
  by (simp add: demo_world_def has_message_def)

section \<open>Peeking\<close>

text \<open>
  What the two peeks do, for every receiver: both return the receiver and leave the
  store as it was; \<open>onFailurePeek\<close> calls its callback once on a \<open>Failure\<close> and not at
  all on a \<open>Success\<close>; \<open>peek\<close> calls its callback once when the data field is truthy
  and not at all when it is falsy.
\<close>

lemma peeks_return_receiver:
  "fst (peek p this w) = this \<and> heap (snd (peek p this w)) = heap w \<and>
   fst (onFailurePeek q this w) = this \<and> heap (snd (onFailurePeek q this w)) = heap w"
  by (simp add: peek_def onFailurePeek_def split: option.splits)

lemma peek_calls:
  "snd (ext (snd (peek (counting p) this wc))) =
     (if truthy (priv_data (heap wc ! this)) then Suc (snd (ext wc)) else snd (ext wc))"
  by (simp add: peek_def counting_calls)

lemma onFailurePeek_calls:
  "snd (ext (snd (onFailurePeek (counting q) this wc))) =
     (case priv_error (heap wc ! this) of
        Some e \<Rightarrow> Suc (snd (ext wc))
      | None \<Rightarrow> snd (ext wc))"
  by (simp add: onFailurePeek_def counting_calls split: option.splits)

text \<open>
  C1. The claim has \<open>peek\<close> call its callback exactly once on every \<open>Success\<close>, the
  falsy values \<open>0\<close>, \<open>""\<close> and \<open>false\<close> included. On \<open>Result.of(0)\<close>, \<open>Result.of("")\<close> and
  \<open>Result.of(false)\<close>, which have no error and hold the value given, \<open>peek\<close> does not
  call the callback at all; on \<open>Result.of(42)\<close> it calls it once.
\<close>

theorem peek_skips_falsy_success:
  "error 0 (snd (of_Result (JNum (Finite 0)) empty_world)) = None \<and>
   data 0 (snd (of_Result (JNum (Finite 0)) empty_world)) = JNum (Finite 0) \<and>
   ext (snd (peek tally 0 (snd (of_Result (JNum (Finite 0)) empty_world)))) = 0 \<and>
   error 0 (snd (of_Result (JStr []) empty_world)) = None \<and>
   data 0 (snd (of_Result (JStr []) empty_world)) = JStr [] \<and>
   ext (snd (peek tally 0 (snd (of_Result (JStr []) empty_world)))) = 0 \<and>
   error 0 (snd (of_Result (JBool False) empty_world)) = None \<and>
   data 0 (snd (of_Result (JBool False) empty_world)) = JBool False \<and>
   ext (snd (peek tally 0 (snd (of_Result (JBool False) empty_world)))) = 0 \<and>
   ext (snd (peek tally 0 (snd (of_Result (JNum (Finite 42)) empty_world)))) = 1"
  by (simp add: of_Result_builds peek_def error_def data_def Success_def empty_world_def
      tally_def)

text \<open>
  After \<open>Result.of(undefined)\<close> the new object is as \<open>new Result()\<close> left it: the
  data field cannot tell a stored \<open>undefined\<close> from no value.
\<close>

lemma of_undefined_as_unassigned:
  "heap (snd (of_Result JUndefined w)) ! length (heap w) =
   heap (snd (new_Result w)) ! length (heap w)"
  by (simp add: of_Result_builds new_Result_def Success_def)

text \<open>
  C10. A \<open>Result\<close> built by \<open>of(null)\<close> or \<open>of(undefined)\<close> is a \<open>Success\<close> of that
  value, and stays one when further objects are built. On any such object of the
  store, every operation that tests the error field takes its \<open>Success\<close> branch:
  \<open>fold\<close> calls the success handler on the value, \<open>apply\<close> calls the transformation
  on it, \<open>applyOnFailure\<close> returns a \<open>Success\<close> of the value, \<open>failOnCondition\<close>
  evaluates its condition on the value, \<open>onFailureReturn\<close> keeps the value, and
  \<open>onFailurePeek\<close> does nothing. Only \<open>peek\<close> treats it otherwise: it does not call
  its callback.
\<close>

theorem nullish_value_is_Success:
  assumes "v = JNull \<or> v = JUndefined"
    and "heap w ! r = Success v"
  shows "heap (snd (of_Result v w0)) ! fst (of_Result v w0) = Success v \<and>
         heap (snd (failure e (snd (of_Result v w0)))) ! fst (of_Result v w0) = Success v \<and>
         fold_Result onData onError r w =
           (fst (onData v (ext w)), w\<lparr>ext := snd (onData v (ext w))\<rparr>) \<and>
         apply_Result f r w =
           (length (heap w),
            w\<lparr>heap := heap w @ [Success (fst (f v (ext w)))], ext := snd (f v (ext w))\<rparr>) \<and>
         applyOnFailure g r w = (length (heap w), w\<lparr>heap := heap w @ [Success v]\<rparr>) \<and>
         failOnCondition c err r w =
           (length (heap w),
            w\<lparr>heap := heap w @ [if fst (c v (ext w)) then Failure err else Success v],
              ext := snd (c v (ext w))\<rparr>) \<and>
         onFailureReturn nv flt r w = (length (heap w), w\<lparr>heap := heap w @ [Success v]\<rparr>) \<and>
         onFailurePeek q r w = (r, w) \<and>
         peek p r w = (r, w)"
proof -
  note obj = assms(2)
  have built: "heap (snd (of_Result v w0)) ! fst (of_Result v w0) = Success v"
    by (simp add: of_Result_builds)
  have kept: "heap (snd (failure e (snd (of_Result v w0)))) ! fst (of_Result v w0) = Success v"
    by (simp add: of_Result_builds failure_builds nth_append)
  have falsy: "\<not> truthy v"
    using assms(1) by auto
  have stored: "priv_data (heap w ! r) = v"
    by (simp add: obj Success_def)
  show ?thesis
    using built kept fold_Success [OF obj, of onData onError] apply_Success [OF obj, of f]
      applyOnFailure_Success [OF obj, of g] failOnCondition_Success [OF obj, of c err]
      onFailureReturn_Success [OF obj, of nv flt] onFailurePeek_Success [OF obj, of q]
      peek_falsy [OF stored falsy, of p]
    by simp
qed

theorem nullish_value_is_Success_witness:
  "(JNull = JNull \<or> JNull = JUndefined) \<and>
   heap nullish_world ! 0 = Success JNull \<and>
   heap nullish_world ! 1 = Failure ''boom'' \<and>
   heap (snd (of_Result JNull empty_world)) ! fst (of_Result JNull empty_world) =
     Success JNull \<and>
   fold_Result wrap message_of 0 nullish_world = (JArr [JNull], nullish_world\<lparr>ext := 1\<rparr>) \<and>
   apply_Result wrap 0 nullish_world =
     (2, nullish_world\<lparr>heap := heap nullish_world @ [Success (JArr [JNull])], ext := 1\<rparr>) \<and>
   applyOnFailure exclaim 0 nullish_world =
     (2, nullish_world\<lparr>heap := heap nullish_world @ [Success JNull]\<rparr>) \<and>
   failOnCondition is_number ''too large'' 0 nullish_world =
     (2, nullish_world\<lparr>heap := heap nullish_world @ [Success JNull], ext := 1\<rparr>) \<and>
   onFailureReturn (JNum (Finite 7)) None 0 nullish_world =
     (2, nullish_world\<lparr>heap := heap nullish_world @ [Success JNull]\<rparr>) \<and>
   onFailurePeek tally 0 nullish_world = (0, nullish_world) \<and>
   peek tally 0 nullish_world = (0, nullish_world)"
  using nullish_value_is_Success [of JNull nullish_world 0 empty_world "''boom''" wrap
      message_of wrap exclaim is_number "''too large''" "JNum (Finite 7)" None tally tally]
  by (simp add: nullish_world_def of_Result_builds failure_builds empty_world_def wrap_def
      is_number_def)

section \<open>Identity of the returned object\<close>

text \<open>
  C8, as the claim states it: every operation that returns a \<open>Result\<close> would return a
  freshly constructed one. \<open>peek\<close> on the \<open>Success\<close> at address 0 and \<open>onFailurePeek\<close>
  on the \<open>Failure\<close> at address 1 return what is not fresh.
\<close>

theorem peek_returns_not_fresh:
  "\<not> returns_fresh (peek tally 0 demo_world) 0 demo_world \<and>
   \<not> returns_fresh (onFailurePeek tally 1 demo_world) 1 demo_world"
  by (simp add: returns_fresh_def allocated_def peek_def onFailurePeek_def demo_world_def
      Success_def Failure_def)

text \<open>
  C8, amended. No operation changes the receiver, or any other object of the store:
  the accessors only read, \<open>fold\<close> leaves the store as it was, \<open>apply\<close>,
  \<open>applyOnFailure\<close>, \<open>failOnCondition\<close> and \<open>onFailureReturn\<close> return a freshly
  constructed object, and \<open>peek\<close> and \<open>onFailurePeek\<close> return the receiver itself.
\<close>

theorem operations_frame:
  assumes "allocated this w"
  shows "returns_fresh (apply_Result f this w) this w \<and>
         returns_fresh (applyOnFailure g this w) this w \<and>
         returns_fresh (failOnCondition c err this w) this w \<and>
         returns_fresh (onFailureReturn nv flt this w) this w \<and>
         returns_receiver (peek p this w) this w \<and>
         returns_receiver (onFailurePeek q this w) this w \<and>
         heap (snd (fold_Result onData onError this w)) = heap w"
proof -
  from assms have a: "this < length (heap w)"
    by (simp add: allocated_def)
  have 1: "returns_fresh (apply_Result f this w) this w"
    using a
    by (simp add: apply_Result_def of_Result_builds failure_builds returns_fresh_def
        allocated_def split_def Let_def nth_append split: option.splits)
  have 2: "returns_fresh (applyOnFailure g this w) this w"
    using a
    by (simp add: applyOnFailure_def of_Result_builds failure_builds returns_fresh_def
        allocated_def split_def Let_def nth_append split: option.splits)
  have 3: "returns_fresh (failOnCondition c err this w) this w"
    using a
    by (simp add: failOnCondition_def of_Result_builds failure_builds returns_fresh_def
        allocated_def split_def Let_def nth_append split: option.splits)
  have 4: "returns_fresh (onFailureReturn nv flt this w) this w"
    using a
    by (simp add: onFailureReturn_def of_Result_builds failure_builds returns_fresh_def
        allocated_def split_def Let_def nth_append split: option.splits)
  have 5: "returns_receiver (peek p this w) this w"
    by (simp add: peek_def returns_receiver_def)
  have 6: "returns_receiver (onFailurePeek q this w) this w"
    by (simp add: onFailurePeek_def returns_receiver_def split: option.splits)
  have 7: "heap (snd (fold_Result onData onError this w)) = heap w"
    by (simp add: fold_Result_def split_def Let_def split: option.splits)
  from 1 2 3 4 5 6 7 show ?thesis by simp
qed

theorem operations_frame_witness:
  "allocated 0 demo_world \<and>
   returns_fresh (apply_Result wrap 0 demo_world) 0 demo_world \<and>
   returns_fresh (applyOnFailure exclaim 0 demo_world) 0 demo_world \<and>
   returns_fresh (failOnCondition is_number ''too large'' 0 demo_world) 0 demo_world \<and>
   returns_fresh (onFailureReturn JNull None 0 demo_world) 0 demo_world \<and>
   returns_receiver (peek tally 0 demo_world) 0 demo_world \<and>
   returns_receiver (onFailurePeek tally 0 demo_world) 0 demo_world \<and>
   heap (snd (fold_Result wrap message_of 0 demo_world)) = heap demo_world"
  using operations_frame [of 0 demo_world wrap exclaim is_number "''too large''" JNull None
      tally tally wrap message_of]
  by (simp add: allocated_def demo_world_def)

end
